theory Spec2Isabelle
  imports Main "HOL-Library.AList"
begin

section \<open>Python values and errors\<close>

text \<open>
  Attribute values and JSON payloads are dynamically typed in the source. One datatype
  covers them: \<open>UNSET\<close> is the sentinel object of \<open>otterdog.utils\<close>, \<open>PNone\<close> is
  Python's \<open>None\<close>; a dict is an association list in insertion order.
\<close>

datatype pyval =
    UNSET
  | PNone
  | PBool bool
  | PInt int
  | PStr string
  | PList "pyval list"
  | PDict "(string \<times> pyval) list"

text \<open>
  The exceptions the modelled code raises; each carries what the source passes.
  \<open>WrappedRuntimeError msg ex\<close> is the \<open>RuntimeError\<close> whose message is
  \<open>msg\<close> followed by the text of the caught exception \<open>ex\<close>. The two forge
  exceptions carry url, status, response text and response headers.
\<close>

datatype error =
    RuntimeError string
  | KeyError string
  | TypeError
  | ValueError
  | AssertionError
  | AttributeError string
  | JSONDecodeError
  | WrappedRuntimeError string error
  | GitHubException string int string "(string \<times> string) list"
  | BadCredentialsException string int string "(string \<times> string) list"

abbreviation sq :: char where "sq \<equiv> CHR 0x27"

section \<open>Webhook model: \<open>webapp/webhook/github_models.py\<close>\<close>

text \<open>
  \<open>PullRequest\<close>: the scalar fields of the pydantic model. The nested \<open>Actor\<close> and
  \<open>Ref\<close> members are read by none of the functions below and stay in the record's
  extension part.
\<close>

record pull_request =
  pr_id :: int
  node_id :: string
  number :: int
  state :: string
  locked :: bool
  title :: string
  body :: "string option"
  draft :: bool
  merged :: "bool option"
  merge_commit_sha :: "string option"

definition get_pr_status :: "'a pull_request_scheme \<Rightarrow> error + string" where
  "get_pr_status self =
     (if state self = ''open'' then Inr (state self)
      else if state self = ''closed'' then
        (if merged self = Some True then Inr ''merged'' else Inr ''closed'')
      else Inl (RuntimeError (''unexpected state '' @ [sq] @ state self @ [sq])))"


section \<open>Repository model: \<open>models/repository.py\<close>\<close>

text \<open>
  The dataclass \<open>Repository\<close>. Every attribute holds a Python value, possibly the
  \<open>UNSET\<close> sentinel; the branch protection rules are child models of a class that is
  not part of this development, hence the type parameter. The attribute \<open>private\<close>
  is the field \<open>repo_private\<close> (\<open>private\<close> is a reserved word of the theory language).
\<close>

record 'bpr repository =
  name :: pyval
  description :: pyval
  homepage :: pyval
  repo_private :: pyval
  has_issues :: pyval
  has_projects :: pyval
  has_wiki :: pyval
  default_branch :: pyval
  allow_rebase_merge :: pyval
  allow_merge_commit :: pyval
  allow_squash_merge :: pyval
  allow_auto_merge :: pyval
  delete_branch_on_merge :: pyval
  allow_update_branch :: pyval
  squash_merge_commit_title :: pyval
  squash_merge_commit_message :: pyval
  merge_commit_title :: pyval
  merge_commit_message :: pyval
  archived :: pyval
  allow_forking :: pyval
  web_commit_signoff_required :: pyval
  secret_scanning :: pyval
  secret_scanning_push_protection :: pyval
  dependabot_alerts_enabled :: pyval
  branch_protection_rules :: "'bpr list"

definition unavailable_fields_in_archived_repos :: "string set" where
  "unavailable_fields_in_archived_repos =
     {''allow_auto_merge'',
      ''allow_merge_commit'',
      ''allow_rebase_merge'',
      ''allow_squash_merge'',
      ''allow_update_branch'',
      ''delete_branch_on_merge'',
      ''merge_commit_message'',
      ''merge_commit_title'',
      ''squash_merge_commit_message'',
      ''squash_merge_commit_title'',
      ''dependabot_alerts_enabled''}"

text \<open>
  \<open>include_field_for_diff_computation\<close>: the dataclass \<open>Field\<close> argument is read only
  through its \<open>name\<close>, so the model takes the field name. \<open>x is True\<close> holds for the
  boolean \<open>True\<close> alone.
\<close>

definition include_field_for_diff_computation :: "'bpr repository \<Rightarrow> string \<Rightarrow> bool" where
  "include_field_for_diff_computation self field_name =
     (if field_name = ''secret_scanning'' \<and> repo_private self = PBool True then False
      else if archived self = PBool True then
        (if field_name \<in> unavailable_fields_in_archived_repos then False else True)
      else True)"

text \<open>The scalar dataclass fields with their values, in declaration order.\<close>

definition all_fields :: "'bpr repository \<Rightarrow> (string \<times> pyval) list" where
  "all_fields r =
     [(''name'', name r),
      (''description'', description r),
      (''homepage'', homepage r),
      (''private'', repo_private r),
      (''has_issues'', has_issues r),
      (''has_projects'', has_projects r),
      (''has_wiki'', has_wiki r),
      (''default_branch'', default_branch r),
      (''allow_rebase_merge'', allow_rebase_merge r),
      (''allow_merge_commit'', allow_merge_commit r),
      (''allow_squash_merge'', allow_squash_merge r),
      (''allow_auto_merge'', allow_auto_merge r),
      (''delete_branch_on_merge'', delete_branch_on_merge r),
      (''allow_update_branch'', allow_update_branch r),
      (''squash_merge_commit_title'', squash_merge_commit_title r),
      (''squash_merge_commit_message'', squash_merge_commit_message r),
      (''merge_commit_title'', merge_commit_title r),
      (''merge_commit_message'', merge_commit_message r),
      (''archived'', archived r),
      (''allow_forking'', allow_forking r),
      (''web_commit_signoff_required'', web_commit_signoff_required r),
      (''secret_scanning'', secret_scanning r),
      (''secret_scanning_push_protection'', secret_scanning_push_protection r),
      (''dependabot_alerts_enabled'', dependabot_alerts_enabled r)]"

text \<open>\<open>Change\<close> of \<open>otterdog.utils\<close>: a pair of values.\<close>

datatype change = Change pyval pyval

text \<open>
  Modelled from the spec: \<open>ModelObject.get_difference_from\<close> lives in
  \<open>models/__init__.py\<close>, which is absent. Section 4.1 of the specification: the result
  maps a field to \<open>Change(expected, current)\<close> and covers only the fields where both
  sides are set (not \<open>UNSET\<close>) and differ, and that pass
  \<open>include_field_for_diff_computation\<close> on both sides.
\<close>

definition get_difference_from ::
  "(string \<Rightarrow> bool) \<Rightarrow> (string \<Rightarrow> bool) \<Rightarrow> (string \<times> pyval) list \<Rightarrow> (string \<times> pyval) list
     \<Rightarrow> (string \<times> change) list" where
  "get_difference_from include_expected include_current expected current =
     List.map_filter
       (\<lambda>(k, e). case map_of current k of
            None \<Rightarrow> None
          | Some c \<Rightarrow>
              if include_expected k \<and> include_current k \<and> e \<noteq> UNSET \<and> c \<noteq> UNSET \<and> e \<noteq> c
              then Some (k, Change e c) else None)
       expected"

definition repository_difference ::
  "'bpr repository \<Rightarrow> 'bpr repository \<Rightarrow> (string \<times> change) list" where
  "repository_difference expected current =
     get_difference_from (include_field_for_diff_computation expected)
       (include_field_for_diff_computation current) (all_fields expected) (all_fields current)"

text \<open>Example repositories: archived and private, and private only.\<close>

definition plain_repo :: "unit repository" where
  "plain_repo =
     \<lparr>name = PStr ''demo'', description = PNone, homepage = PNone, repo_private = PBool False,
      has_issues = PBool True, has_projects = PBool True, has_wiki = PBool True,
      default_branch = PStr ''main'', allow_rebase_merge = PBool True,
      allow_merge_commit = PBool True, allow_squash_merge = PBool True,
      allow_auto_merge = PBool False, delete_branch_on_merge = PBool False,
      allow_update_branch = PBool False, squash_merge_commit_title = PStr ''COMMIT_OR_PR_TITLE'',
      squash_merge_commit_message = PStr ''COMMIT_MESSAGES'',
      merge_commit_title = PStr ''MERGE_MESSAGE'', merge_commit_message = PStr ''PR_TITLE'',
      archived = PBool False, allow_forking = PBool True,
      web_commit_signoff_required = PBool False, secret_scanning = PStr ''enabled'',
      secret_scanning_push_protection = PStr ''enabled'',
      dependabot_alerts_enabled = PBool True, branch_protection_rules = []\<rparr>"

definition archived_repo :: "unit repository" where
  "archived_repo = plain_repo\<lparr>archived := PBool True\<rparr>"

definition archived_private_repo :: "unit repository" where
  "archived_private_repo = plain_repo\<lparr>archived := PBool True, repo_private := PBool True\<rparr>"

definition private_repo :: "unit repository" where
  "private_repo = plain_repo\<lparr>repo_private := PBool True\<rparr>"

section \<open>Repository workflow settings: \<open>models/repo_workflow_settings.py\<close>\<close>

text \<open>
  The base class \<open>WorkflowSettings\<close> is declared in \<open>models/workflow_settings.py\<close>,
  which is absent; of its attributes the code below reads \<open>default_workflow_permissions\<close>.
  The repository-level class adds \<open>enabled\<close>, the organization-level class
  \<open>enabled_repositories\<close>. Record extension follows the class inheritance.
\<close>

record workflow_settings =
  default_workflow_permissions :: pyval

record repository_workflow_settings = workflow_settings +
  enabled :: pyval

record organization_workflow_settings = workflow_settings +
  enabled_repositories :: pyval

text \<open>
  Modelled from the spec: \<open>is_set_and_valid\<close> of \<open>otterdog.utils\<close> (absent). An
  attribute is set when it holds a concrete value, neither the unset sentinel nor null.
\<close>

definition is_set_and_valid :: "pyval \<Rightarrow> bool" where
  "is_set_and_valid v = (v \<noteq> UNSET \<and> v \<noteq> PNone)"

text \<open>
  Modelled from the spec: \<open>FailureType\<close> and \<open>ValidationContext\<close> of
  \<open>models/__init__.py\<close> (absent). Section 4.3: the failure kinds are ERROR (blocks
  apply), WARNING and INFO, and \<open>validate\<close> appends typed failures to the context. The
  context also gives the root organization, of which \<open>validate\<close> reads
  \<open>settings.workflows\<close>.
\<close>

datatype failure_type = ERROR | WARNING | INFO

record validation_context =
  root_workflows :: organization_workflow_settings
  failures :: "(failure_type \<times> string) list"

definition add_failure :: "failure_type \<Rightarrow> string \<Rightarrow> validation_context \<Rightarrow> validation_context" where
  "add_failure failure_type message context =
     context\<lparr>failures := failures context @ [(failure_type, message)]\<rparr>"

text \<open>
  Modelled from the spec: section 4.5, apply halts before execution if the validator
  emitted any ERROR.
\<close>

definition blocks_apply :: "validation_context \<Rightarrow> bool" where
  "blocks_apply context = (ERROR \<in> set (map fst (failures context)))"

text \<open>
  The text an f-string inserts for a value. At the places below the value is a string
  (each is guarded by an equality with a string literal); the text of numbers, containers
  and the sentinel is not modelled and is the empty text here.
\<close>

fun py_str :: "pyval \<Rightarrow> string" where
  "py_str (PStr s) = s"
| "py_str (PBool True) = ''True''"
| "py_str (PBool False) = ''False''"
| "py_str PNone = ''None''"
| "py_str _ = []"

text \<open>
  \<open>RepositoryWorkflowSettings.validate\<close>. \<open>super_validate\<close> stands for
  \<open>super().validate(context, parent_object)\<close> of the absent base class, and
  \<open>header\<close> for the text of \<open>self.get_model_header(parent_object)\<close>.
\<close>

definition validate ::
  "(validation_context \<Rightarrow> validation_context) \<Rightarrow> string \<Rightarrow>
     'a repository_workflow_settings_scheme \<Rightarrow> validation_context \<Rightarrow> validation_context" where
  "validate super_validate header self context0 =
     (let context = super_validate context0 in
      if is_set_and_valid (enabled self) \<and> enabled self = PBool True then
        (let org_workflow_settings = root_workflows context;
             context =
               (if enabled_repositories org_workflow_settings = PStr ''none''
                   \<and> enabled self = PBool True
                then add_failure ERROR
                       (header @ '' has enabled workflows, '' @
                        ''while on organization level it disabled for all repositories.'')
                       context
                else context);
             context =
               (if default_workflow_permissions org_workflow_settings = PStr ''read''
                   \<and> default_workflow_permissions self = PStr ''write''
                then add_failure ERROR
                       (header @ '' has '' @ [sq] @ ''default_workflow_permissions'' @ [sq] @
                        '' of value '' @
                        [sq] @ py_str (default_workflow_permissions self) @ [sq] @ '', '' @
                        ''while on organization level it is restricted to '' @
                        [sq] @ py_str (default_workflow_permissions org_workflow_settings) @
                        [sq] @ ''.'')
                       context
                else context)
         in context)
      else context)"

text \<open>
  Modelled from the spec: \<open>LivePatch\<close> of \<open>models/__init__.py\<close> (absent), with the
  fields of section 4.4. The bound \<open>apply\<close> function is a closure and is left out.
  \<open>of_addition\<close> and \<open>of_changes\<close> are the two factory methods the code calls.
\<close>

datatype live_patch_type = ADD | CHANGE | REMOVE

record ('o, 'p) live_patch =
  patch_type :: live_patch_type
  expected_object :: "'o option"
  current_object :: "'o option"
  parent_object :: "'p option"
  changes :: "(string \<times> change) list option"
  forced_update :: bool

definition of_addition :: "'o \<Rightarrow> 'p option \<Rightarrow> ('o, 'p) live_patch" where
  "of_addition expected parent =
     \<lparr>patch_type = ADD, expected_object = Some expected, current_object = None,
      parent_object = parent, changes = None, forced_update = False\<rparr>"

definition of_changes ::
  "'o \<Rightarrow> 'o \<Rightarrow> (string \<times> change) list \<Rightarrow> 'p option \<Rightarrow> bool \<Rightarrow> ('o, 'p) live_patch" where
  "of_changes expected current chs parent forced =
     \<lparr>patch_type = CHANGE, expected_object = Some expected, current_object = Some current,
      parent_object = parent, changes = Some chs, forced_update = forced\<rparr>"

text \<open>
  \<open>RepositoryWorkflowSettings.generate_live_patch\<close>. The result is the list of patches
  handed to \<open>handler\<close>, or the \<open>AssertionError\<close> of a missing expected object
  (the arguments \<open>expected\<close>, \<open>current\<close>, \<open>parent\<close> are the source's
  \<open>expected_object\<close>, \<open>current_object\<close>, \<open>parent_object\<close>).
  \<open>difference\<close> stands for \<open>expected_object.get_difference_from(current_object)\<close>
  of the absent base class; a dict is an association list, and \<open>AList.update\<close> is the
  item assignment of a dict (replace in place, or append a new key).
\<close>

definition generate_live_patch ::
  "('a repository_workflow_settings_scheme \<Rightarrow> 'a repository_workflow_settings_scheme
        \<Rightarrow> (string \<times> change) list) \<Rightarrow>
   'a repository_workflow_settings_scheme option \<Rightarrow>
   'a repository_workflow_settings_scheme option \<Rightarrow> 'p option \<Rightarrow>
   error + ('a repository_workflow_settings_scheme, 'p) live_patch list" where
  "generate_live_patch difference expected current parent =
     (case expected of
        None \<Rightarrow> Inl AssertionError
      | Some expected_settings \<Rightarrow>
          (case current of
             None \<Rightarrow> Inr [of_addition expected_settings parent]
           | Some current_settings \<Rightarrow>
               (let modified_workflow_settings = difference expected_settings current_settings;
                    modified_workflow_settings =
                      (if ''allowed_actions'' \<in> set (map fst modified_workflow_settings)
                       then AList.update ''enabled''
                              (Change (enabled expected_settings) (enabled expected_settings))
                              modified_workflow_settings
                       else modified_workflow_settings)
                in if length modified_workflow_settings > 0
                   then Inr [of_changes expected_settings current_settings
                               modified_workflow_settings parent False]
                   else Inr [])))"

text \<open>Example settings: the scenario of a change of \<open>allowed_actions\<close> alone.\<close>

definition repo_settings :: repository_workflow_settings where
  "repo_settings = \<lparr>default_workflow_permissions = PStr ''write'', enabled = PBool True\<rparr>"

definition org_settings_none :: organization_workflow_settings where
  "org_settings_none =
     \<lparr>default_workflow_permissions = PStr ''read'', enabled_repositories = PStr ''none''\<rparr>"

definition allowed_actions_difference ::
  "repository_workflow_settings \<Rightarrow> repository_workflow_settings \<Rightarrow> (string \<times> change) list" where
  "allowed_actions_difference e c = [(''allowed_actions'', Change (PStr ''all'') (PStr ''selected''))]"

section \<open>REST transport: \<open>providers/github/rest.py\<close>\<close>

text \<open>
  What \<open>Requester.request_raw\<close> hands to \<open>session.request\<close>. The body is the text
  \<open>json.dumps\<close> gives for a value; the serialisation is kept symbolic.
\<close>

datatype body = JsonDumps pyval

record request =
  req_method :: string
  req_url :: string
  req_headers :: "(string \<times> string) list"
  req_refresh :: bool
  req_params :: "(string \<times> pyval) list option"
  req_data :: "body option"

text \<open>
  What the code reads of a \<open>requests.Response\<close>: \<open>status_code\<close>, \<open>text\<close>,
  \<open>headers\<close>, \<open>request.url\<close>, and the result of \<open>json()\<close>, which is absent when
  the body is not a JSON document (the method raises then).
\<close>

record response =
  status_code :: int
  resp_text :: string
  resp_headers :: "(string \<times> string) list"
  request_url :: string
  resp_json :: "pyval option"

text \<open>
  The forge behind the session: the answer to a request may depend on every request sent
  before it. A session maps the history of requests, the current one last, to the answer;
  the state threaded through the functions is that history.
\<close>

type_synonym session = "request list \<Rightarrow> response"

record requester =
  base_url :: string
  self_headers :: "(string \<times> string) list"

definition Requester :: "string \<Rightarrow> string \<Rightarrow> string \<Rightarrow> requester" where
  "Requester token base api_version =
     \<lparr>base_url = base,
      self_headers =
        [(''Accept'', ''application/vnd.github+json''),
         (''Authorization'', ''Bearer '' @ token),
         (''X-GitHub-Api-Version'', api_version),
         (''X-Github-Next-Global-ID'', ''1'')]\<rparr>"

definition build_url :: "requester \<Rightarrow> string \<Rightarrow> string" where
  "build_url self url_path = base_url self @ url_path"

text \<open>The request that \<open>request_raw\<close> passes to \<open>session.request\<close>.\<close>

definition prepared_request ::
  "requester \<Rightarrow> string \<Rightarrow> string \<Rightarrow> body option \<Rightarrow> (string \<times> pyval) list option \<Rightarrow> request" where
  "prepared_request self method url_path data params =
     \<lparr>req_method = method, req_url = build_url self url_path,
      req_headers = self_headers self, req_refresh = True,
      req_params = params, req_data = data\<rparr>"

definition request_raw ::
  "session \<Rightarrow> requester \<Rightarrow> string \<Rightarrow> string \<Rightarrow> body option \<Rightarrow> (string \<times> pyval) list option
     \<Rightarrow> request list \<Rightarrow> (error + response) \<times> request list" where
  "request_raw session self method url_path data params log =
     (if method \<notin> set [''GET'', ''PATCH'', ''POST'', ''PUT'', ''DELETE'']
      then (Inl AssertionError, log)
      else
        (let sent = log @ [prepared_request self method url_path data params]
         in (Inr (session sent), sent)))"

definition create_exception :: "response \<Rightarrow> error" where
  "create_exception response =
     (let status = status_code response;
          url = request_url response
      in if status = 401
         then BadCredentialsException url status (resp_text response) (resp_headers response)
         else GitHubException url status (resp_text response) (resp_headers response))"

definition check_response :: "response \<Rightarrow> error + unit" where
  "check_response response =
     (if status_code response \<ge> 400 then Inl (create_exception response) else Inr ())"

definition request_json ::
  "session \<Rightarrow> requester \<Rightarrow> string \<Rightarrow> string \<Rightarrow> pyval option \<Rightarrow> (string \<times> pyval) list option
     \<Rightarrow> request list \<Rightarrow> (error + pyval) \<times> request list" where
  "request_json session self method url_path data params log =
     (let input_data = (case data of None \<Rightarrow> None | Some d \<Rightarrow> Some (JsonDumps d))
      in case request_raw session self method url_path input_data params log of
           (Inl e, log') \<Rightarrow> (Inl e, log')
         | (Inr response, log') \<Rightarrow>
             (case check_response response of
                Inl e \<Rightarrow> (Inl e, log')
              | Inr _ \<Rightarrow>
                  (case resp_json response of
                     None \<Rightarrow> (Inl JSONDecodeError, log')
                   | Some j \<Rightarrow> (Inr j, log'))))"

text \<open>\<open>len\<close> and iteration of a Python value; \<open>None\<close> is the \<open>TypeError\<close>.\<close>

fun py_len :: "pyval \<Rightarrow> nat option" where
  "py_len (PList xs) = Some (length xs)"
| "py_len (PDict d) = Some (length d)"
| "py_len (PStr s) = Some (length s)"
| "py_len _ = None"

fun py_iter :: "pyval \<Rightarrow> pyval list option" where
  "py_iter (PList xs) = Some xs"
| "py_iter (PDict d) = Some (map (\<lambda>(k, v). PStr k) d)"
| "py_iter (PStr s) = Some (map (\<lambda>c. PStr [c]) s)"
| "py_iter _ = None"

text \<open>\<open>d.update(other)\<close>: the items of \<open>other\<close> are assigned in order.\<close>

definition dict_update :: "('k \<times> 'v) list \<Rightarrow> ('k \<times> 'v) list \<Rightarrow> ('k \<times> 'v) list" where
  "dict_update d other = fold (\<lambda>(k, v). AList.update k v) other d"

definition query_params :: "int \<Rightarrow> (string \<times> pyval) list option \<Rightarrow> (string \<times> pyval) list" where
  "query_params current_page params =
     (let q = [(''per_page'', PStr ''100''), (''page'', PInt current_page)]
      in case params of None \<Rightarrow> q | Some p \<Rightarrow> dict_update q p)"

text \<open>
  The loop of \<open>request_paged_json\<close>, with its variables \<open>current_page\<close> and
  \<open>result\<close>. Nothing bounds the number of pages, so the loop is a partial function:
  the value \<open>None\<close> means that it does not return.
\<close>

partial_function (option) request_paged_json_loop ::
  "session \<Rightarrow> requester \<Rightarrow> string \<Rightarrow> string \<Rightarrow> pyval option \<Rightarrow> (string \<times> pyval) list option
     \<Rightarrow> int \<Rightarrow> pyval list \<Rightarrow> request list \<Rightarrow> ((error + pyval list) \<times> request list) option" where
  "request_paged_json_loop session self method url_path data params current_page result log =
     (if current_page > 0 then
        (case request_json session self method url_path data
                (Some (query_params current_page params)) log of
           (Inl e, log') \<Rightarrow> Some (Inl e, log')
         | (Inr response, log') \<Rightarrow>
             (case py_len response of
                None \<Rightarrow> Some (Inl TypeError, log')
              | Some n \<Rightarrow>
                  if n = 0
                  then request_paged_json_loop session self method url_path data params
                         (- 1) result log'
                  else
                    (case py_iter response of
                       None \<Rightarrow> Some (Inl TypeError, log')
                     | Some items \<Rightarrow>
                         request_paged_json_loop session self method url_path data params
                           (current_page + 1) (result @ items) log')))
      else Some (Inr result, log))"

definition request_paged_json ::
  "session \<Rightarrow> requester \<Rightarrow> string \<Rightarrow> string \<Rightarrow> pyval option \<Rightarrow> (string \<times> pyval) list option
     \<Rightarrow> request list \<Rightarrow> ((error + pyval list) \<times> request list) option" where
  "request_paged_json session self method url_path data params log =
     request_paged_json_loop session self method url_path data params 1 [] log"

subsection \<open>\<open>RestClient\<close>\<close>

definition GH_API_VERSION :: string where
  "GH_API_VERSION = ''2022-11-28''"

definition GH_API_URL_ROOT :: string where
  "GH_API_URL_ROOT = ''https://api.github.com''"

record rest_client =
  client_requester :: requester

definition RestClient :: "string \<Rightarrow> rest_client" where
  "RestClient token = \<lparr>client_requester = Requester token GH_API_URL_ROOT GH_API_VERSION\<rparr>"

text \<open>
  \<open>except GitHubException\<close> and \<open>except RuntimeError\<close>. The exception classes are
  declared in \<open>providers/github/exception.py\<close>, which is absent: whether
  \<open>BadCredentialsException\<close> derives from \<open>GitHubException\<close> is the parameter
  \<open>derived\<close>.
\<close>

fun isinstance_GitHubException :: "bool \<Rightarrow> error \<Rightarrow> bool" where
  "isinstance_GitHubException derived (GitHubException u s t h) = True"
| "isinstance_GitHubException derived (BadCredentialsException u s t h) = derived"
| "isinstance_GitHubException derived _ = False"

fun isinstance_RuntimeError :: "error \<Rightarrow> bool" where
  "isinstance_RuntimeError (RuntimeError m) = True"
| "isinstance_RuntimeError (WrappedRuntimeError m e) = True"
| "isinstance_RuntimeError _ = False"

text \<open>Subscription \<open>v[key]\<close> with a string key.\<close>

fun py_getitem :: "pyval \<Rightarrow> string \<Rightarrow> error + pyval" where
  "py_getitem (PDict d) k = (case map_of d k of None \<Rightarrow> Inl (KeyError k) | Some v \<Rightarrow> Inr v)"
| "py_getitem _ k = Inl TypeError"

definition contents_path :: "string \<Rightarrow> string \<Rightarrow> string \<Rightarrow> string" where
  "contents_path org_id repo_name path =
     ''/repos/'' @ org_id @ ''/'' @ repo_name @ ''/contents/'' @ path"

definition get_content_object ::
  "session \<Rightarrow> bool \<Rightarrow> rest_client \<Rightarrow> string \<Rightarrow> string \<Rightarrow> string \<Rightarrow> string option
     \<Rightarrow> request list \<Rightarrow> (error + pyval) \<times> request list" where
  "get_content_object session derived self org_id repo_name path ref log =
     (let params = (case ref of Some r \<Rightarrow> Some [(''ref'', PStr r)] | None \<Rightarrow> None)
      in case request_json session (client_requester self) ''GET''
                (contents_path org_id repo_name path) None params log of
           (Inl ex, log') \<Rightarrow>
             if isinstance_GitHubException derived ex
             then (Inl (WrappedRuntimeError
                          (''failed retrieving content '' @ [sq] @ path @ [sq] @
                           '' from repo '' @ [sq] @ repo_name @ [sq] @ '':'' @ [CHR 0x0A]) ex),
                   log')
             else (Inl ex, log')
         | (Inr j, log') \<Rightarrow> (Inr j, log'))"

text \<open>
  \<open>base64.b64decode(x).decode('utf-8')\<close> and
  \<open>base64.b64encode(s.encode('utf-8')).decode('utf-8')\<close> are library functions, taken
  as the parameters \<open>b64decode\<close> (absent where the library raises, a \<open>ValueError\<close>) and
  \<open>b64encode\<close>.
\<close>

definition old_content_of ::
  "(string \<Rightarrow> string option) \<Rightarrow> pyval \<Rightarrow> error + (pyval \<times> string)" where
  "old_content_of b64decode json_response =
     (case py_getitem json_response ''sha'' of
        Inl e \<Rightarrow> Inl e
      | Inr old_sha \<Rightarrow>
          (case py_getitem json_response ''content'' of
             Inl e \<Rightarrow> Inl e
           | Inr (PStr c) \<Rightarrow>
               (case b64decode c of None \<Rightarrow> Inl ValueError | Some old \<Rightarrow> Inr (old_sha, old))
           | Inr _ \<Rightarrow> Inl TypeError))"

definition put_data :: "(string \<Rightarrow> string) \<Rightarrow> string \<Rightarrow> string \<Rightarrow> string option \<Rightarrow> pyval \<Rightarrow> pyval" where
  "put_data b64encode path content message old_sha =
     (let base64_content = b64encode content;
          push_message =
            (case message of
               None \<Rightarrow> ''Updating file '' @ [sq] @ path @ [sq] @ '' with otterdog.''
             | Some m \<Rightarrow> m);
          data = [(''message'', PStr push_message), (''content'', PStr base64_content)];
          data = (if old_sha \<noteq> PNone then AList.update ''sha'' old_sha data else data)
      in PDict data)"

definition put_content ::
  "session \<Rightarrow> bool \<Rightarrow> (string \<Rightarrow> string) \<Rightarrow> rest_client \<Rightarrow> string \<Rightarrow> string \<Rightarrow> string
     \<Rightarrow> string \<Rightarrow> string option \<Rightarrow> pyval \<Rightarrow> request list \<Rightarrow> (error + unit) \<times> request list" where
  "put_content session derived b64encode self org_id repo_name path content message old_sha log =
     (case request_json session (client_requester self) ''PUT''
             (contents_path org_id repo_name path)
             (Some (put_data b64encode path content message old_sha)) None log of
        (Inl ex, log') \<Rightarrow>
          if isinstance_GitHubException derived ex
          then (Inl (WrappedRuntimeError
                       (''failed putting content '' @ [sq] @ path @ [sq] @
                        '' to repo '' @ [sq] @ repo_name @ [sq] @ '':'' @ [CHR 0x0A]) ex),
                log')
          else (Inl ex, log')
      | (Inr j, log') \<Rightarrow> (Inr (), log'))"

text \<open>
  \<open>RestClient.update_content\<close>. The \<open>try\<close> block reads the stored file, and
  \<open>except RuntimeError\<close> turns a failed read into \<open>old_sha = None\<close>,
  \<open>old_content = None\<close>; any other exception leaves the function. \<open>old_content_of\<close>
  is the rest of the \<open>try\<close> block; \<open>put_data\<close> builds the dict \<open>data\<close> and
  \<open>put_content\<close> is the part of the function after the comparison.
\<close>

definition update_content ::
  "session \<Rightarrow> bool \<Rightarrow> (string \<Rightarrow> string option) \<Rightarrow> (string \<Rightarrow> string) \<Rightarrow> rest_client
     \<Rightarrow> string \<Rightarrow> string \<Rightarrow> string \<Rightarrow> string \<Rightarrow> string option \<Rightarrow> request list
     \<Rightarrow> (error + unit) \<times> request list" where
  "update_content session derived b64decode b64encode self org_id repo_name path content
       message log =
     (case get_content_object session derived self org_id repo_name path None log of
        (r, log') \<Rightarrow>
          (case (case r of Inl e \<Rightarrow> Inl e | Inr json_response \<Rightarrow>
                   old_content_of b64decode json_response) of
             Inl e \<Rightarrow>
               if isinstance_RuntimeError e
               then put_content session derived b64encode self org_id repo_name path content
                      message PNone log'
               else (Inl e, log')
           | Inr (old_sha, old_content) \<Rightarrow>
               if content = old_content
               then (Inr (), log')
               else put_content session derived b64encode self org_id repo_name path content
                      message old_sha log'))"

text \<open>
  Example sessions. \<open>flaky_session\<close> answers 503 to the first request and 200 with an
  empty JSON object to every later one; \<open>no_content_session\<close> answers 204 with an empty
  body, as the forge does for requests that return nothing.
\<close>

definition demo_requester :: requester where
  "demo_requester = Requester ''token'' GH_API_URL_ROOT GH_API_VERSION"

definition flaky_session :: session where
  "flaky_session history =
     (if length history \<le> 1
      then \<lparr>status_code = 503, resp_text = ''Service Unavailable'', resp_headers = [],
            request_url = req_url (last history), resp_json = None\<rparr>
      else \<lparr>status_code = 200, resp_text = ''{}'', resp_headers = [],
            request_url = req_url (last history), resp_json = Some (PDict [])\<rparr>)"

definition no_content_session :: session where
  "no_content_session history =
     \<lparr>status_code = 204, resp_text = [], resp_headers = [],
      request_url = req_url (last history), resp_json = None\<rparr>"

text \<open>
  The request that the loop of \<open>request_paged_json\<close> sends for page \<open>k\<close>, and the
  requests for the pages \<open>1\<close> to \<open>n\<close> in order.
\<close>

definition page_request ::
  "requester \<Rightarrow> string \<Rightarrow> string \<Rightarrow> pyval option \<Rightarrow> (string \<times> pyval) list option \<Rightarrow> nat
     \<Rightarrow> request" where
  "page_request self method url_path data params k =
     prepared_request self method url_path (map_option JsonDumps data)
       (Some (query_params (int k) params))"

definition page_requests ::
  "requester \<Rightarrow> string \<Rightarrow> string \<Rightarrow> pyval option \<Rightarrow> (string \<times> pyval) list option \<Rightarrow> nat
     \<Rightarrow> request list" where
  "page_requests self method url_path data params n =
     map (page_request self method url_path data params) [1..<Suc n]"

text \<open>
  Example sessions for paging: \<open>paged_session\<close> serves two items for page 1, one item
  for page 2 and an empty list for any other page; \<open>empty_session\<close> serves an empty list.
\<close>

definition paged_session :: session where
  "paged_session history =
     (let page = (case req_params (last history) of
                    None \<Rightarrow> None
                  | Some q \<Rightarrow> map_of q ''page'')
      in \<lparr>status_code = 200, resp_text = [], resp_headers = [],
          request_url = req_url (last history),
          resp_json = Some (PList
            (if page = Some (PInt 1) then [PStr ''a'', PStr ''b'']
             else if page = Some (PInt 2) then [PStr ''c'']
             else []))\<rparr>)"

definition empty_session :: session where
  "empty_session history =
     \<lparr>status_code = 200, resp_text = ''[]'', resp_headers = [],
      request_url = req_url (last history), resp_json = Some (PList [])\<rparr>"

text \<open>
  The two requests \<open>update_content\<close> can send: the GET that reads the stored file
  and the PUT that writes the new content.
\<close>

definition get_request :: "rest_client \<Rightarrow> string \<Rightarrow> string \<Rightarrow> string \<Rightarrow> request" where
  "get_request self org_id repo_name path =
     prepared_request (client_requester self) ''GET'' (contents_path org_id repo_name path)
       None None"

definition put_request ::
  "(string \<Rightarrow> string) \<Rightarrow> rest_client \<Rightarrow> string \<Rightarrow> string \<Rightarrow> string \<Rightarrow> string \<Rightarrow> string option
     \<Rightarrow> pyval \<Rightarrow> request" where
  "put_request b64encode self org_id repo_name path content message old_sha =
     prepared_request (client_requester self) ''PUT'' (contents_path org_id repo_name path)
       (Some (JsonDumps (put_data b64encode path content message old_sha))) None"

text \<open>
  Example for \<open>update_content\<close>: a forge that stores \<open>hello\<close> at every path
  (\<open>file_session\<close>) and one that stores nothing (\<open>missing_session\<close>: 404 on GET,
  201 on PUT), with the base64 functions given on the texts that occur.
\<close>

definition demo_b64decode :: "string \<Rightarrow> string option" where
  "demo_b64decode s = (if s = ''aGVsbG8='' then Some ''hello'' else None)"

definition demo_b64encode :: "string \<Rightarrow> string" where
  "demo_b64encode s = (if s = ''hello'' then ''aGVsbG8='' else ''d29ybGQ='')"

definition file_session :: session where
  "file_session history =
     \<lparr>status_code = 200, resp_text = [], resp_headers = [],
      request_url = req_url (last history),
      resp_json = Some (PDict [(''sha'', PStr ''3b18e5'' ), (''content'', PStr ''aGVsbG8='')])\<rparr>"

definition missing_session :: session where
  "missing_session history =
     (if req_method (last history) = ''GET''
      then \<lparr>status_code = 404, resp_text = ''Not Found'', resp_headers = [],
            request_url = req_url (last history), resp_json = None\<rparr>
      else \<lparr>status_code = 201, resp_text = [], resp_headers = [],
            request_url = req_url (last history), resp_json = Some (PDict [])\<rparr>)"

text \<open>
  \<open>flaky_file_session\<close> stores \<open>hello\<close> as well, but answers 503 to the first
  request it receives.
\<close>

definition flaky_file_session :: session where
  "flaky_file_session history =
     (if length history \<le> 1
      then \<lparr>status_code = 503, resp_text = ''Service Unavailable'', resp_headers = [],
            request_url = req_url (last history), resp_json = None\<rparr>
      else file_session history)"

definition demo_client :: rest_client where
  "demo_client = RestClient ''token''"

section \<open>Pull request store: \<open>webapp/db/service.py\<close>\<close>

text \<open>
  The members of \<open>PullRequest\<close> that are objects themselves (\<open>user\<close>, \<open>head\<close>,
  \<open>base\<close>) and its \<open>author_association\<close> complete the record of the webhook model.
\<close>

record pull_request_object = pull_request +
  user :: pyval
  author_association :: string
  head :: pyval
  base :: pyval

text \<open>
  The attributes of a \<open>PullRequest\<close> instance, in the order of the class declaration
  (\<open>github_models.py\<close>, lines 70 to 84), and the attribute read \<open>self.name\<close>: a
  pydantic model has the declared fields and no others, so any other name raises
  \<open>AttributeError\<close>.
\<close>

definition PullRequest_attributes :: "pull_request_object \<Rightarrow> (string \<times> pyval) list" where
  "PullRequest_attributes self =
     [(''id'', PInt (pr_id self)),
      (''node_id'', PStr (node_id self)),
      (''number'', PInt (number self)),
      (''state'', PStr (state self)),
      (''locked'', PBool (locked self)),
      (''title'', PStr (title self)),
      (''body'', (case body self of None \<Rightarrow> PNone | Some b \<Rightarrow> PStr b)),
      (''draft'', PBool (pull_request.draft self)),
      (''merged'', (case merged self of None \<Rightarrow> PNone | Some b \<Rightarrow> PBool b)),
      (''merge_commit_sha'',
         (case merge_commit_sha self of None \<Rightarrow> PNone | Some s \<Rightarrow> PStr s)),
      (''user'', user self),
      (''author_association'', PStr (author_association self)),
      (''head'', head self),
      (''base'', base self)]"

definition getattr :: "pull_request_object \<Rightarrow> string \<Rightarrow> error + pyval" where
  "getattr self attribute =
     (case map_of (PullRequest_attributes self) attribute of
        None \<Rightarrow> Inl (AttributeError attribute)
      | Some v \<Rightarrow> Inr v)"

text \<open>
  Modelled from the spec: the enum \<open>PullRequestStatus\<close> of \<open>webapp/db/models.py\<close>
  (absent). Its members are OPEN, CLOSED and MERGED (the PR state mapping of section 4.7;
  \<open>service.py\<close> itself names \<open>PullRequestStatus.OPEN\<close> and
  \<open>PullRequestStatus.MERGED\<close>). \<open>PullRequestStatus[name]\<close> is the member of that
  name, and a \<open>KeyError\<close> for any other name: member names are case-sensitive.
\<close>

datatype pull_request_status = OPEN | CLOSED | MERGED

definition PullRequestStatus_getitem :: "string \<Rightarrow> error + pull_request_status" where
  "PullRequestStatus_getitem member_name =
     (if member_name = ''OPEN'' then Inr OPEN
      else if member_name = ''CLOSED'' then Inr CLOSED
      else if member_name = ''MERGED'' then Inr MERGED
      else Inl (KeyError member_name))"

text \<open>
  \<open>PullRequestModel\<close> and \<open>ApplyStatus\<close> are declared in the absent
  \<open>webapp/db/models.py\<close> as well. The fields of the model are those the function
  assigns; \<open>ApplyStatus\<close> is a type parameter, and the defaults of the fields that the
  constructor call leaves out are a parameter.
\<close>

record 'a pull_request_model =
  org_id :: string
  repo_name :: string
  pull_request :: int
  draft :: bool
  status :: pull_request_status
  apply_status :: 'a
  valid :: "bool option"
  in_sync :: "bool option"
  requires_manual_apply :: "bool option"
  created_at :: pyval
  updated_at :: pyval
  closed_at :: pyval
  merged_at :: pyval

record 'a model_defaults =
  default_apply_status :: 'a
  default_valid :: "bool option"
  default_in_sync :: "bool option"
  default_requires_manual_apply :: "bool option"

text \<open>
  The collection behind \<open>mongo.odm\<close> is the list of its documents. \<open>find_one\<close>
  yields the first document that matches, with its position, which stands for the
  document's primary key: \<open>save\<close> replaces the document at the position of an instance
  that was read from the collection, and appends a new instance.
\<close>

fun find_one :: "('d \<Rightarrow> bool) \<Rightarrow> 'd list \<Rightarrow> (nat \<times> 'd) option" where
  "find_one P [] = None"
| "find_one P (x # xs) =
     (if P x then Some (0, x)
      else (case find_one P xs of None \<Rightarrow> None | Some (i, y) \<Rightarrow> Some (Suc i, y)))"

definition save :: "nat option \<Rightarrow> 'd \<Rightarrow> 'd list \<Rightarrow> 'd list" where
  "save key doc db = (case key of None \<Rightarrow> db @ [doc] | Some i \<Rightarrow> db[i := doc])"

definition find_pull_request ::
  "'a pull_request_model list \<Rightarrow> string \<Rightarrow> string \<Rightarrow> int
     \<Rightarrow> (nat \<times> 'a pull_request_model) option" where
  "find_pull_request db owner repo n =
     find_one (\<lambda>m. org_id m = owner \<and> repo_name m = repo \<and> pull_request m = n) db"

text \<open>
  \<open>update_or_create_pull_request\<close>. The result is the exception raised, or \<open>()\<close>,
  together with the collection. Line 284 determines the status first. Both branches then
  read \<open>draft\<close> and the four timestamps of the pull request, \<open>created_at\<close> first, before
  anything is saved; an exception in between leaves the collection as it was (the
  assignments of the \<open>else\<close> branch change the instance in memory only).
\<close>

definition update_or_create_pull_request ::
  "'a model_defaults \<Rightarrow> string \<Rightarrow> string \<Rightarrow> pull_request_object
     \<Rightarrow> bool option \<Rightarrow> bool option \<Rightarrow> bool option \<Rightarrow> 'a option
     \<Rightarrow> 'a pull_request_model list
     \<Rightarrow> (error + unit) \<times> 'a pull_request_model list" where
  "update_or_create_pull_request defaults owner repo pr
       valid_arg in_sync_arg requires_manual_apply_arg apply_status_arg db =
     (case get_pr_status pr of
        Inl e \<Rightarrow> (Inl e, db)
      | Inr status_name \<Rightarrow>
     (case PullRequestStatus_getitem status_name of
        Inl e \<Rightarrow> (Inl e, db)
      | Inr pull_request_status \<Rightarrow>
     (let found = find_pull_request db owner repo (number pr) in
      case getattr pr ''created_at'' of
        Inl e \<Rightarrow> (Inl e, db)
      | Inr pr_created_at \<Rightarrow>
     (case getattr pr ''updated_at'' of
        Inl e \<Rightarrow> (Inl e, db)
      | Inr pr_updated_at \<Rightarrow>
     (case getattr pr ''closed_at'' of
        Inl e \<Rightarrow> (Inl e, db)
      | Inr pr_closed_at \<Rightarrow>
     (case getattr pr ''merged_at'' of
        Inl e \<Rightarrow> (Inl e, db)
      | Inr pr_merged_at \<Rightarrow>
          (let pr_model =
                 (case found of
                    None \<Rightarrow>
                      \<lparr>org_id = owner,
                       repo_name = repo,
                       pull_request = number pr,
                       draft = pull_request.draft pr,
                       status = pull_request_status,
                       apply_status = default_apply_status defaults,
                       valid = default_valid defaults,
                       in_sync = default_in_sync defaults,
                       requires_manual_apply = default_requires_manual_apply defaults,
                       created_at = pr_created_at,
                       updated_at = pr_updated_at,
                       closed_at = pr_closed_at,
                       merged_at = pr_merged_at\<rparr>
                  | Some (i, m) \<Rightarrow>
                      m\<lparr>draft := pull_request.draft pr,
                        status := pull_request_status,
                        created_at := pr_created_at,
                        updated_at := pr_updated_at,
                        closed_at := pr_closed_at,
                        merged_at := pr_merged_at\<rparr>);
               pr_model =
                 (case apply_status_arg of
                    Some a \<Rightarrow> pr_model\<lparr>apply_status := a\<rparr> | None \<Rightarrow> pr_model);
               pr_model =
                 (case valid_arg of
                    Some v \<Rightarrow> pr_model\<lparr>valid := Some v\<rparr> | None \<Rightarrow> pr_model);
               pr_model =
                 (case in_sync_arg of
                    Some v \<Rightarrow> pr_model\<lparr>in_sync := Some v\<rparr> | None \<Rightarrow> pr_model);
               pr_model =
                 (case requires_manual_apply_arg of
                    Some v \<Rightarrow> pr_model\<lparr>requires_manual_apply := Some v\<rparr>
                  | None \<Rightarrow> pr_model)
           in (Inr (), save (map_option fst found) pr_model db))))))))"

text \<open>
  Example: a store with one document for pull request 7 of \<open>o/r\<close>, still a draft and
  open, and the same pull request as the forge reports it after the merge.
\<close>

datatype apply_status_example = NOT_APPLIED | FAILED | COMPLETED

definition example_defaults :: "apply_status_example model_defaults" where
  "example_defaults =
     \<lparr>default_apply_status = NOT_APPLIED, default_valid = None, default_in_sync = None,
      default_requires_manual_apply = None\<rparr>"

definition stored_model :: "apply_status_example pull_request_model" where
  "stored_model =
     \<lparr>org_id = ''o'', repo_name = ''r'', pull_request = 7, draft = True, status = OPEN,
      apply_status = NOT_APPLIED, valid = Some True, in_sync = Some False,
      requires_manual_apply = None, created_at = PStr ''2024-01-01'',
      updated_at = PStr ''2024-01-01'', closed_at = PNone, merged_at = PNone\<rparr>"

definition merged_pull_request :: pull_request_object where
  "merged_pull_request =
     \<lparr>pr_id = 1, node_id = ''n'', number = 7, state = ''closed'', locked = False,
      title = ''t'', body = None, pull_request.draft = False, merged = Some True,
      merge_commit_sha = None, user = PDict [], author_association = ''MEMBER'',
      head = PDict [], base = PDict []\<rparr>"

section \<open>One request, one response\<close>

lemma request_raw_valid:
  "method \<in> set [''GET'', ''PATCH'', ''POST'', ''PUT'', ''DELETE''] \<Longrightarrow>
   request_raw session self method url_path data params log =
     (Inr (session (log @ [prepared_request self method url_path data params])),
      log @ [prepared_request self method url_path data params])"
  unfolding request_raw_def Let_def by (simp only: if_False not_not not_True_eq_False)

lemma request_raw_invalid:
  "method \<notin> set [''GET'', ''PATCH'', ''POST'', ''PUT'', ''DELETE''] \<Longrightarrow>
   request_raw session self method url_path data params log = (Inl AssertionError, log)"
  unfolding request_raw_def by (simp only: if_True not_False_eq_True)

lemma request_json_valid:
  assumes "method \<in> set [''GET'', ''PATCH'', ''POST'', ''PUT'', ''DELETE'']"
  shows "request_json session self method url_path data params log =
     (let sent = log @ [prepared_request self method url_path (map_option JsonDumps data) params];
          response = session sent
      in (if status_code response \<ge> 400 then Inl (create_exception response)
          else case resp_json response of None \<Rightarrow> Inl JSONDecodeError | Some j \<Rightarrow> Inr j,
          sent))"
proof -
  have d: "(case data of None \<Rightarrow> None | Some d \<Rightarrow> Some (JsonDumps d)) = map_option JsonDumps data"
    by (cases data) simp_all
  show ?thesis
    unfolding request_json_def Let_def d request_raw_valid [OF assms] check_response_def
    by (simp split: option.split)
qed

lemma request_json_invalid:
  assumes "method \<notin> set [''GET'', ''PATCH'', ''POST'', ''PUT'', ''DELETE'']"
  shows "request_json session self method url_path data params log = (Inl AssertionError, log)"
  unfolding request_json_def Let_def request_raw_invalid [OF assms] by simp

section \<open>Field selection for the diff of repositories\<close>

lemma secret_scanning_not_frozen:
  "''secret_scanning'' \<notin> unavailable_fields_in_archived_repos"
  by (simp add: unavailable_fields_in_archived_repos_def)

lemma keys_get_difference_from:
  "(k, ch) \<in> set (get_difference_from ie ic es cs) \<Longrightarrow> ie k \<and> ic k"
  by (auto simp: get_difference_from_def List.map_filter_def split: option.splits if_splits)

lemma archived_excludes:
  "archived r = PBool True \<Longrightarrow> f \<in> unavailable_fields_in_archived_repos \<Longrightarrow>
     \<not> include_field_for_diff_computation r f"
  by (simp add: include_field_for_diff_computation_def)

text \<open>
  C1, as stated, fails: on a repository that is archived and private the field
  \<open>secret_scanning\<close>, which is outside the archive-frozen set, is excluded as well.
\<close>

theorem archived_outside_frozen_counterexample:
  "archived archived_private_repo = PBool True \<and>
   ''secret_scanning'' \<notin> unavailable_fields_in_archived_repos \<and>
   include_field_for_diff_computation archived_private_repo ''secret_scanning'' = False"
  by (simp add: archived_private_repo_def plain_repo_def
      include_field_for_diff_computation_def unavailable_fields_in_archived_repos_def)

text \<open>
  C1, amended. For every archived repository \<open>include_field_for_diff_computation\<close>
  returns false for every field of the archive-frozen set, and for a field outside the set
  it returns true unless the field is \<open>secret_scanning\<close> and the repository is private
  too. Hence a difference computed over the fields that pass the test on both sides never
  contains a frozen attribute when either side is archived.
\<close>

theorem archived_masking:
  assumes "archived r = PBool True"
  shows "(\<forall>f. f \<in> unavailable_fields_in_archived_repos \<longrightarrow>
            include_field_for_diff_computation r f = False) \<and>
         (\<forall>f. f \<notin> unavailable_fields_in_archived_repos \<longrightarrow>
            include_field_for_diff_computation r f =
              (\<not> (f = ''secret_scanning'' \<and> repo_private r = PBool True))) \<and>
         (\<forall>other f. f \<in> unavailable_fields_in_archived_repos \<longrightarrow>
            f \<notin> fst ` set (repository_difference r other) \<and>
            f \<notin> fst ` set (repository_difference other r))"
proof (intro conjI)
  show "\<forall>f. f \<in> unavailable_fields_in_archived_repos \<longrightarrow>
          include_field_for_diff_computation r f = False"
    using assms by (simp add: archived_excludes)
  show "\<forall>f. f \<notin> unavailable_fields_in_archived_repos \<longrightarrow>
          include_field_for_diff_computation r f =
            (\<not> (f = ''secret_scanning'' \<and> repo_private r = PBool True))"
    using assms by (simp add: include_field_for_diff_computation_def)
  show "\<forall>other f. f \<in> unavailable_fields_in_archived_repos \<longrightarrow>
          f \<notin> fst ` set (repository_difference r other) \<and>
          f \<notin> fst ` set (repository_difference other r)"
    using archived_excludes [OF assms]
    by (auto simp: repository_difference_def dest!: keys_get_difference_from)
qed

theorem archived_masking_witness:
  "archived archived_repo = PBool True \<and>
   include_field_for_diff_computation archived_repo ''delete_branch_on_merge'' = False \<and>
   include_field_for_diff_computation archived_repo ''has_wiki'' = True \<and>
   ''delete_branch_on_merge'' \<notin> fst ` set (repository_difference
       (plain_repo\<lparr>delete_branch_on_merge := PBool True\<rparr>) archived_repo)"
proof -
  have a: "archived archived_repo = PBool True"
    by (simp add: archived_repo_def)
  have f: "''delete_branch_on_merge'' \<in> unavailable_fields_in_archived_repos"
    by (simp add: unavailable_fields_in_archived_repos_def)
  have w: "''has_wiki'' \<notin> unavailable_fields_in_archived_repos"
    by (simp add: unavailable_fields_in_archived_repos_def)
  show ?thesis
    using archived_masking [OF a] a f w by simp
qed

text \<open>
  C2. On a private repository both \<open>secret_scanning\<close> and
  \<open>secret_scanning_push_protection\<close> are to be excluded from the diff. The code
  tests the name \<open>secret_scanning\<close> alone: on a private repository that is not
  archived, \<open>secret_scanning\<close> is excluded and \<open>secret_scanning_push_protection\<close>
  is included.
\<close>

theorem push_protection_included_on_private_repo:
  "repo_private private_repo = PBool True \<and>
   include_field_for_diff_computation private_repo ''secret_scanning'' = False \<and>
   include_field_for_diff_computation private_repo ''secret_scanning_push_protection'' = True"
  by (simp add: private_repo_def plain_repo_def include_field_for_diff_computation_def)

section \<open>Pull request status\<close>

text \<open>
  C3. \<open>get_pr_status\<close> is a total function of the pull request (so it is deterministic):
  state \<open>open\<close> yields the open status, state \<open>closed\<close> with \<open>merged\<close> true the merged
  status, state \<open>closed\<close> with \<open>merged\<close> false or absent the closed status, and every
  other state raises an error. The statuses are the strings the method returns.
\<close>

theorem get_pr_status_mapping:
  "(state pr = ''open'' \<longrightarrow> get_pr_status pr = Inr ''open'') \<and>
   (state pr = ''closed'' \<and> merged pr = Some True \<longrightarrow> get_pr_status pr = Inr ''merged'') \<and>
   (state pr = ''closed'' \<and> merged pr \<noteq> Some True \<longrightarrow> get_pr_status pr = Inr ''closed'') \<and>
   (state pr \<noteq> ''open'' \<and> state pr \<noteq> ''closed'' \<longrightarrow> (\<exists>e. get_pr_status pr = Inl e))"
  by (simp add: get_pr_status_def)

theorem get_pr_status_mapping_witness:
  "get_pr_status \<lparr>pr_id = 1, node_id = ''n'', number = 7, state = ''open'', locked = False,
      title = ''t'', body = None, pull_request.draft = False, merged = None, merge_commit_sha = None\<rparr>
     = Inr ''open'' \<and>
   get_pr_status \<lparr>pr_id = 1, node_id = ''n'', number = 7, state = ''closed'', locked = False,
      title = ''t'', body = None, pull_request.draft = False, merged = Some True, merge_commit_sha = None\<rparr>
     = Inr ''merged'' \<and>
   get_pr_status \<lparr>pr_id = 1, node_id = ''n'', number = 7, state = ''closed'', locked = False,
      title = ''t'', body = None, pull_request.draft = False, merged = Some False, merge_commit_sha = None\<rparr>
     = Inr ''closed'' \<and>
   (\<exists>e. get_pr_status \<lparr>pr_id = 1, node_id = ''n'', number = 7, state = ''draft'', locked = False,
      title = ''t'', body = None, pull_request.draft = False, merged = None, merge_commit_sha = None\<rparr>
     = Inl e)"
  using
    get_pr_status_mapping [of "\<lparr>pr_id = 1, node_id = ''n'', number = 7, state = ''open'',
      locked = False, title = ''t'', body = None, pull_request.draft = False, merged = None,
      merge_commit_sha = None\<rparr>"]
    get_pr_status_mapping [of "\<lparr>pr_id = 1, node_id = ''n'', number = 7, state = ''closed'',
      locked = False, title = ''t'', body = None, pull_request.draft = False, merged = Some True,
      merge_commit_sha = None\<rparr>"]
    get_pr_status_mapping [of "\<lparr>pr_id = 1, node_id = ''n'', number = 7, state = ''closed'',
      locked = False, title = ''t'', body = None, pull_request.draft = False, merged = Some False,
      merge_commit_sha = None\<rparr>"]
    get_pr_status_mapping [of "\<lparr>pr_id = 1, node_id = ''n'', number = 7, state = ''draft'',
      locked = False, title = ''t'', body = None, pull_request.draft = False, merged = None,
      merge_commit_sha = None\<rparr>"]
  by simp

section \<open>Live patch of repository workflow settings\<close>

text \<open>
  C4. On a change of repository workflow settings (both objects present): whenever
  \<open>allowed_actions\<close> is a key of the computed difference, exactly one CHANGE patch is
  emitted and its change map holds \<open>enabled\<close> with the expected value on both sides,
  whether or not \<open>enabled\<close> differs; every other key is as in the difference. When the
  difference is empty no patch is emitted. This holds for every difference function.
\<close>

theorem generate_live_patch_forces_enabled:
  "(''allowed_actions'' \<in> set (map fst (difference expected current)) \<longrightarrow>
      (\<exists>chs. generate_live_patch difference (Some expected) (Some current) parent
                = Inr [of_changes expected current chs parent False] \<and>
             patch_type (of_changes expected current chs parent False) = CHANGE \<and>
             map_of chs ''enabled'' = Some (Change (enabled expected) (enabled expected)) \<and>
             (\<forall>k. k \<noteq> ''enabled'' \<longrightarrow> map_of chs k = map_of (difference expected current) k))) \<and>
   (difference expected current = [] \<longrightarrow>
      generate_live_patch difference (Some expected) (Some current) parent = Inr [])"
  by (auto simp: generate_live_patch_def Let_def update_conv of_changes_def)

theorem generate_live_patch_forces_enabled_witness:
  "''allowed_actions'' \<in> set (map fst (allowed_actions_difference repo_settings repo_settings)) \<and>
   (\<exists>chs. generate_live_patch allowed_actions_difference (Some repo_settings)
             (Some repo_settings) (None :: unit option)
             = Inr [of_changes repo_settings repo_settings chs None False] \<and>
          map_of chs ''enabled'' = Some (Change (PBool True) (PBool True)) \<and>
          map_of chs ''allowed_actions'' = Some (Change (PStr ''all'') (PStr ''selected''))) \<and>
   generate_live_patch (\<lambda>e c. []) (Some repo_settings) (Some repo_settings)
     (None :: unit option) = Inr []"
proof -
  have k: "''allowed_actions'' \<in> set (map fst (allowed_actions_difference repo_settings repo_settings))"
    by (simp add: allowed_actions_difference_def)
  have e: "enabled repo_settings = PBool True"
    by (simp add: repo_settings_def)
  have d: "map_of (allowed_actions_difference repo_settings repo_settings) ''allowed_actions''
             = Some (Change (PStr ''all'') (PStr ''selected''))"
    by (simp add: allowed_actions_difference_def)
  from generate_live_patch_forces_enabled
         [of allowed_actions_difference repo_settings repo_settings "None :: unit option"] k
  obtain chs where
    c: "generate_live_patch allowed_actions_difference (Some repo_settings)
          (Some repo_settings) (None :: unit option)
          = Inr [of_changes repo_settings repo_settings chs None False]"
       "map_of chs ''enabled'' = Some (Change (enabled repo_settings) (enabled repo_settings))"
       "\<forall>k. k \<noteq> ''enabled'' \<longrightarrow>
          map_of chs k = map_of (allowed_actions_difference repo_settings repo_settings) k"
    by blast
  from c(3) d have a: "map_of chs ''allowed_actions'' = Some (Change (PStr ''all'') (PStr ''selected''))"
    by simp
  have n: "generate_live_patch (\<lambda>e c. []) (Some repo_settings) (Some repo_settings)
             (None :: unit option) = Inr []"
    using generate_live_patch_forces_enabled
            [of "\<lambda>e c. []" repo_settings repo_settings "None :: unit option"]
    by simp
  show ?thesis
    using k c(1) c(2) a n e by auto
qed

section \<open>Validation of repository workflow settings\<close>

text \<open>
  C8. For repository workflow settings whose \<open>enabled\<close> is set and true, \<open>validate\<close>
  appends to the failures left by the base class an ERROR when the organization-level
  \<open>enabled_repositories\<close> is \<open>none\<close>, and an ERROR when the repository-level
  \<open>default_workflow_permissions\<close> is \<open>write\<close> while the organization-level one is
  \<open>read\<close>; in both cases the resulting context blocks apply.
\<close>

theorem validate_rejects_more_permissive:
  assumes "is_set_and_valid (enabled self) \<and> enabled self = PBool True"
  shows "\<exists>added.
      failures (validate super_validate header self context)
        = failures (super_validate context) @ added \<and>
      (enabled_repositories (root_workflows (super_validate context)) = PStr ''none'' \<longrightarrow>
         (ERROR, header @ '' has enabled workflows, while on organization level it disabled for all repositories.'')
           \<in> set added \<and>
         blocks_apply (validate super_validate header self context)) \<and>
      (default_workflow_permissions self = PStr ''write'' \<and>
       default_workflow_permissions (root_workflows (super_validate context)) = PStr ''read'' \<longrightarrow>
         (ERROR, header @ '' has '' @ [sq] @ ''default_workflow_permissions'' @ [sq] @
                 '' of value '' @ [sq] @ ''write'' @ [sq] @
                 '', while on organization level it is restricted to '' @
                 [sq] @ ''read'' @ [sq] @ ''.'')
           \<in> set added \<and>
         blocks_apply (validate super_validate header self context))"
  using assms
  by (auto simp: validate_def Let_def add_failure_def blocks_apply_def)

theorem validate_rejects_more_permissive_witness:
  "is_set_and_valid (enabled repo_settings) \<and> enabled repo_settings = PBool True \<and>
   enabled_repositories org_settings_none = PStr ''none'' \<and>
   default_workflow_permissions repo_settings = PStr ''write'' \<and>
   default_workflow_permissions org_settings_none = PStr ''read'' \<and>
   (\<exists>m1 m2. failures (validate (\<lambda>c. c) ''repo_workflow_settings'' repo_settings
                 \<lparr>root_workflows = org_settings_none, failures = [(WARNING, ''w'')]\<rparr>)
               = [(WARNING, ''w''), (ERROR, m1), (ERROR, m2)]) \<and>
   blocks_apply (validate (\<lambda>c. c) ''repo_workflow_settings'' repo_settings
                 \<lparr>root_workflows = org_settings_none, failures = [(WARNING, ''w'')]\<rparr>)"
proof -
  have h: "is_set_and_valid (enabled repo_settings) \<and> enabled repo_settings = PBool True"
    by (simp add: repo_settings_def is_set_and_valid_def)
  have v: "failures (validate (\<lambda>c. c) ''repo_workflow_settings'' repo_settings
                 \<lparr>root_workflows = org_settings_none, failures = [(WARNING, ''w'')]\<rparr>)
            = [(WARNING, ''w''),
               (ERROR, ''repo_workflow_settings has enabled workflows, while on organization level it disabled for all repositories.''),
               (ERROR, ''repo_workflow_settings has '' @ [sq] @ ''default_workflow_permissions''
                  @ [sq] @ '' of value '' @ [sq] @ ''write'' @ [sq]
                  @ '', while on organization level it is restricted to '' @ [sq] @ ''read''
                  @ [sq] @ ''.'')]"
    by (simp add: validate_def Let_def add_failure_def repo_settings_def org_settings_none_def
        is_set_and_valid_def)
  show ?thesis
    using validate_rejects_more_permissive [OF h, of "\<lambda>c. c" "''repo_workflow_settings''"
        "\<lparr>root_workflows = org_settings_none, failures = [(WARNING, ''w'')]\<rparr>"] h v
    by (simp add: repo_settings_def org_settings_none_def)
qed

section \<open>Errors of the REST transport\<close>

text \<open>
  C5, as stated, fails: the requester has no retry. Against a forge that answers 503 once
  and 200 afterwards, \<open>request_json\<close> sends one request and raises the forge error of
  the 503, although a second attempt would have been answered with 200.
\<close>

theorem no_retry_counterexample:
  "request_json flaky_session demo_requester ''GET'' ''/orgs/o'' None None []
     = (Inl (GitHubException (GH_API_URL_ROOT @ ''/orgs/o'') 503 ''Service Unavailable'' []),
        [prepared_request demo_requester ''GET'' ''/orgs/o'' None None]) \<and>
   status_code (flaky_session [prepared_request demo_requester ''GET'' ''/orgs/o'' None None,
                               prepared_request demo_requester ''GET'' ''/orgs/o'' None None])
     = 200"
  by (simp add: request_json_def request_raw_def Let_def flaky_session_def prepared_request_def
      demo_requester_def check_response_def create_exception_def build_url_def Requester_def)

text \<open>
  C5, amended. \<open>request_json\<close> sends every request exactly once: for an admissible
  method the history grows by the one prepared request, and a response with status 400 or
  above (every 5xx and every rate-limit response among them) is raised as an error after
  that single attempt. For any other method nothing is sent.
\<close>

theorem request_json_single_attempt:
  "(method \<in> set [''GET'', ''PATCH'', ''POST'', ''PUT'', ''DELETE''] \<longrightarrow>
      snd (request_json session self method url_path data params log)
        = log @ [prepared_request self method url_path (map_option JsonDumps data) params] \<and>
      (status_code (session (log @
          [prepared_request self method url_path (map_option JsonDumps data) params])) \<ge> 400 \<longrightarrow>
       fst (request_json session self method url_path data params log)
         = Inl (create_exception (session (log @
             [prepared_request self method url_path (map_option JsonDumps data) params]))))) \<and>
   (method \<notin> set [''GET'', ''PATCH'', ''POST'', ''PUT'', ''DELETE''] \<longrightarrow>
      request_json session self method url_path data params log = (Inl AssertionError, log))"
proof (intro conjI impI)
  assume m: "method \<in> set [''GET'', ''PATCH'', ''POST'', ''PUT'', ''DELETE'']"
  show "snd (request_json session self method url_path data params log)
        = log @ [prepared_request self method url_path (map_option JsonDumps data) params]"
    by (simp add: request_json_valid [OF m] Let_def)
  assume "status_code (session (log @
          [prepared_request self method url_path (map_option JsonDumps data) params])) \<ge> 400"
  then show "fst (request_json session self method url_path data params log)
         = Inl (create_exception (session (log @
             [prepared_request self method url_path (map_option JsonDumps data) params])))"
    by (simp add: request_json_valid [OF m] Let_def)
next
  assume "method \<notin> set [''GET'', ''PATCH'', ''POST'', ''PUT'', ''DELETE'']"
  then show "request_json session self method url_path data params log = (Inl AssertionError, log)"
    by (rule request_json_invalid)
qed

theorem request_json_single_attempt_witness:
  "''GET'' \<in> set [''GET'', ''PATCH'', ''POST'', ''PUT'', ''DELETE''] \<and>
   status_code (flaky_session
      [prepared_request demo_requester ''GET'' ''/orgs/o'' None None]) \<ge> 400 \<and>
   snd (request_json flaky_session demo_requester ''GET'' ''/orgs/o'' None None [])
     = [prepared_request demo_requester ''GET'' ''/orgs/o'' None None] \<and>
   fst (request_json flaky_session demo_requester ''GET'' ''/orgs/o'' None None [])
     = Inl (create_exception (flaky_session
         [prepared_request demo_requester ''GET'' ''/orgs/o'' None None])) \<and>
   ''HEAD'' \<notin> set [''GET'', ''PATCH'', ''POST'', ''PUT'', ''DELETE''] \<and>
   request_json flaky_session demo_requester ''HEAD'' ''/orgs/o'' None None []
     = (Inl AssertionError, [])"
proof -
  have s: "status_code (flaky_session
      [prepared_request demo_requester ''GET'' ''/orgs/o'' None None]) \<ge> 400"
    by (simp add: flaky_session_def)
  show ?thesis
    using request_json_single_attempt
            [of "''GET''" flaky_session demo_requester "''/orgs/o''" None None "[]"]
          request_json_single_attempt
            [of "''HEAD''" flaky_session demo_requester "''/orgs/o''" None None "[]"] s
    by simp
qed

text \<open>
  C6, as stated, fails in its last part: a response with a status below 400 whose body is
  not a JSON document (the empty body of a 204) makes \<open>request_json\<close> raise the decoding
  error of \<open>response.json()\<close>.
\<close>

theorem request_json_no_content_counterexample:
  "status_code (no_content_session
      [prepared_request demo_requester ''PUT'' ''/orgs/o/security-managers/teams/t'' None None])
     < 400 \<and>
   fst (request_json no_content_session demo_requester ''PUT''
          ''/orgs/o/security-managers/teams/t'' None None [])
     = Inl JSONDecodeError"
  by (simp add: request_json_def request_raw_def Let_def no_content_session_def
      check_response_def)

text \<open>
  C6, amended. For every response: status 401 raises the bad-credentials error; every
  other status of 400 or above raises the forge error that carries the request URL, the
  status and the response text; a status below 400 raises nothing in the check. For such
  a response \<open>request_json\<close> returns the parsed JSON body when the body is a JSON
  document, and raises the decoding error otherwise.
\<close>

theorem check_response_cases:
  "(status_code r = 401 \<longrightarrow>
      check_response r
        = Inl (BadCredentialsException (request_url r) 401 (resp_text r) (resp_headers r))) \<and>
   (status_code r \<ge> 400 \<and> status_code r \<noteq> 401 \<longrightarrow>
      check_response r
        = Inl (GitHubException (request_url r) (status_code r) (resp_text r) (resp_headers r))) \<and>
   (status_code r < 400 \<longrightarrow> check_response r = Inr ()) \<and>
   (method \<in> set [''GET'', ''PATCH'', ''POST'', ''PUT'', ''DELETE''] \<and>
    r = session (log @
          [prepared_request self method url_path (map_option JsonDumps data) params]) \<longrightarrow>
      fst (request_json session self method url_path data params log)
        = (case check_response r of
             Inl e \<Rightarrow> Inl e
           | Inr u \<Rightarrow> (case resp_json r of None \<Rightarrow> Inl JSONDecodeError | Some j \<Rightarrow> Inr j)))"
proof (intro conjI impI)
  show "status_code r = 401 \<Longrightarrow>
      check_response r
        = Inl (BadCredentialsException (request_url r) 401 (resp_text r) (resp_headers r))"
    by (simp add: check_response_def create_exception_def)
  show "status_code r \<ge> 400 \<and> status_code r \<noteq> 401 \<Longrightarrow>
      check_response r
        = Inl (GitHubException (request_url r) (status_code r) (resp_text r) (resp_headers r))"
    by (simp add: check_response_def create_exception_def)
  show "status_code r < 400 \<Longrightarrow> check_response r = Inr ()"
    by (simp add: check_response_def)
  assume a: "method \<in> set [''GET'', ''PATCH'', ''POST'', ''PUT'', ''DELETE''] \<and>
    r = session (log @
          [prepared_request self method url_path (map_option JsonDumps data) params])"
  then have m: "method \<in> set [''GET'', ''PATCH'', ''POST'', ''PUT'', ''DELETE'']"
    by (rule conjunct1)
  show "fst (request_json session self method url_path data params log)
        = (case check_response r of
             Inl e \<Rightarrow> Inl e
           | Inr u \<Rightarrow> (case resp_json r of None \<Rightarrow> Inl JSONDecodeError | Some j \<Rightarrow> Inr j))"
    using a by (simp add: request_json_valid [OF m] Let_def check_response_def)
qed

theorem check_response_cases_witness:
  "status_code (flaky_session [prepared_request demo_requester ''GET'' ''/x'' None None,
                               prepared_request demo_requester ''GET'' ''/x'' None None]) < 400 \<and>
   check_response (flaky_session [prepared_request demo_requester ''GET'' ''/x'' None None,
                               prepared_request demo_requester ''GET'' ''/x'' None None]) = Inr () \<and>
   fst (request_json flaky_session demo_requester ''GET'' ''/x'' None None
          [prepared_request demo_requester ''GET'' ''/x'' None None]) = Inr (PDict []) \<and>
   check_response \<lparr>status_code = 401, resp_text = ''Bad credentials'', resp_headers = [],
                   request_url = ''https://api.github.com/x'', resp_json = None\<rparr>
     = Inl (BadCredentialsException ''https://api.github.com/x'' 401 ''Bad credentials'' []) \<and>
   check_response \<lparr>status_code = 404, resp_text = ''Not Found'', resp_headers = [],
                   request_url = ''https://api.github.com/x'', resp_json = None\<rparr>
     = Inl (GitHubException ''https://api.github.com/x'' 404 ''Not Found'' [])"
proof -
  let ?q = "prepared_request demo_requester ''GET'' ''/x'' None None"
  have g: "''GET'' \<in> set [''GET'', ''PATCH'', ''POST'', ''PUT'', ''DELETE'']"
    by simp
  have s: "status_code (flaky_session [?q, ?q]) < 400"
    by (simp add: flaky_session_def)
  have j: "resp_json (flaky_session [?q, ?q]) = Some (PDict [])"
    by (simp add: flaky_session_def)
  have p: "[?q] @ [prepared_request demo_requester ''GET'' ''/x'' (map_option JsonDumps None) None]
             = [?q, ?q]"
    by simp
  show ?thesis
    using check_response_cases [of "flaky_session [?q, ?q]" "''GET''" flaky_session "[?q]"
            demo_requester "''/x''" None None]
          check_response_cases [of "\<lparr>status_code = 401, resp_text = ''Bad credentials'',
            resp_headers = [], request_url = ''https://api.github.com/x'', resp_json = None\<rparr>"
            "''GET''" flaky_session "[?q]" demo_requester "''/x''" None None]
          check_response_cases [of "\<lparr>status_code = 404, resp_text = ''Not Found'',
            resp_headers = [], request_url = ''https://api.github.com/x'', resp_json = None\<rparr>"
            "''GET''" flaky_session "[?q]" demo_requester "''/x''" None None]
          g s j p
    by simp
qed

section \<open>Updating a stored pull request\<close>

lemma get_pr_status_names:
  "get_pr_status pr = Inr status_name \<Longrightarrow>
     status_name = ''open'' \<or> status_name = ''merged'' \<or> status_name = ''closed''"
  by (auto simp: get_pr_status_def split: if_splits)

lemma PullRequestStatus_getitem_lower_case:
  "PullRequestStatus_getitem ''open'' = Inl (KeyError ''open'')"
  "PullRequestStatus_getitem ''merged'' = Inl (KeyError ''merged'')"
  "PullRequestStatus_getitem ''closed'' = Inl (KeyError ''closed'')"
  by (simp_all add: PullRequestStatus_getitem_def)

lemma getattr_created_at:
  "getattr pr ''created_at'' = Inl (AttributeError ''created_at'')"
  by (simp add: getattr_def PullRequest_attributes_def)

text \<open>
  C9. The stored fields \<open>draft\<close>, \<open>status\<close> and the four timestamps are to be
  refreshed by every call, and the optional fields overwritten by a value that is passed.
  The code does not get that far. \<open>get_pr_status\<close> returns the lower-case names
  \<open>open\<close>, \<open>merged\<close>, \<open>closed\<close>, and line 284 looks the name up among the members
  of \<open>PullRequestStatus\<close> without upper-casing it, so every call raises (the
  \<open>RuntimeError\<close> of an unexpected state or the \<open>KeyError\<close> of the lookup) and leaves
  the collection as it was; behind that, the read of \<open>pull_request.created_at\<close> raises
  \<open>AttributeError\<close> for every pull request. For the stored draft of pull request 7 and
  the merged pull request, called with \<open>requires_manual_apply = True\<close> and
  \<open>apply_status = COMPLETED\<close>, the document stays a draft and not applied.
\<close>

theorem update_or_create_pull_request_never_saves:
  "(\<exists>e. update_or_create_pull_request defaults owner repo pr
           valid_arg in_sync_arg requires_manual_apply_arg apply_status_arg db
         = (Inl e, db)) \<and>
   getattr pr ''created_at'' = Inl (AttributeError ''created_at'') \<and>
   find_pull_request [stored_model] ''o'' ''r'' (number merged_pull_request)
     = Some (0, stored_model) \<and>
   update_or_create_pull_request example_defaults ''o'' ''r'' merged_pull_request
       None None (Some True) (Some COMPLETED) [stored_model]
     = (Inl (KeyError ''merged''), [stored_model]) \<and>
   draft stored_model \<noteq> pull_request.draft merged_pull_request \<and>
   apply_status stored_model \<noteq> COMPLETED \<and>
   requires_manual_apply stored_model \<noteq> Some True"
proof (intro conjI)
  show "\<exists>e. update_or_create_pull_request defaults owner repo pr
           valid_arg in_sync_arg requires_manual_apply_arg apply_status_arg db
         = (Inl e, db)"
  proof (cases "get_pr_status pr")
    case (Inl e)
    then show ?thesis
      by (simp add: update_or_create_pull_request_def)
  next
    case (Inr status_name)
    from get_pr_status_names [OF Inr]
    have "PullRequestStatus_getitem status_name = Inl (KeyError status_name)"
      by (auto simp: PullRequestStatus_getitem_lower_case)
    with Inr show ?thesis
      by (simp add: update_or_create_pull_request_def)
  qed
  show "getattr pr ''created_at'' = Inl (AttributeError ''created_at'')"
    by (rule getattr_created_at)
  show "find_pull_request [stored_model] ''o'' ''r'' (number merged_pull_request)
          = Some (0, stored_model)"
    by (simp add: find_pull_request_def stored_model_def merged_pull_request_def)
  show "update_or_create_pull_request example_defaults ''o'' ''r'' merged_pull_request
          None None (Some True) (Some COMPLETED) [stored_model]
        = (Inl (KeyError ''merged''), [stored_model])"
    by (simp add: update_or_create_pull_request_def get_pr_status_def merged_pull_request_def
        PullRequestStatus_getitem_def)
  show "draft stored_model \<noteq> pull_request.draft merged_pull_request"
    by (simp add: stored_model_def merged_pull_request_def)
  show "apply_status stored_model \<noteq> COMPLETED"
    by (simp add: stored_model_def)
  show "requires_manual_apply stored_model \<noteq> Some True"
    by (simp add: stored_model_def)
qed

section \<open>Paged requests\<close>

lemma request_json_page:
  assumes m: "method \<in> set [''GET'', ''PATCH'', ''POST'', ''PUT'', ''DELETE'']"
    and s: "status_code (session (log @ [page_request self method url_path data params k])) < 400"
    and j: "resp_json (session (log @ [page_request self method url_path data params k])) = Some v"
  shows "request_json session self method url_path data (Some (query_params (int k) params)) log
           = (Inr v, log @ [page_request self method url_path data params k])"
  using s j by (simp add: request_json_valid [OF m] Let_def page_request_def)

lemma page_requests_Suc:
  "page_requests self method url_path data params (Suc n) =
     page_requests self method url_path data params n
       @ [page_request self method url_path data params (Suc n)]"
  by (simp add: page_requests_def)

lemma loop_stop:
  "request_paged_json_loop session self method url_path data params (- 1) result log
     = Some (Inr result, log)"
  by (subst request_paged_json_loop.simps) simp

lemma loop_pages:
  assumes m: "method \<in> set [''GET'', ''PATCH'', ''POST'', ''PUT'', ''DELETE'']"
    and full: "\<forall>i < length pages.
         status_code (session (log @ page_requests self method url_path data params (Suc i))) < 400 \<and>
         resp_json (session (log @ page_requests self method url_path data params (Suc i)))
           = Some (PList (pages ! i)) \<and>
         pages ! i \<noteq> []"
    and last: "status_code (session (log @ page_requests self method url_path data params
                   (Suc (length pages)))) < 400 \<and>
         resp_json (session (log @ page_requests self method url_path data params
                   (Suc (length pages)))) = Some (PList [])"
    and j: "j \<le> length pages"
  shows "request_paged_json_loop session self method url_path data params (int (Suc j)) acc
           (log @ page_requests self method url_path data params j)
         = Some (Inr (acc @ concat (drop j pages)),
                 log @ page_requests self method url_path data params (Suc (length pages)))"
  using j
proof (induction "length pages - j" arbitrary: j acc)
  case 0
  then have e: "j = length pages" by simp
  have r: "request_json session self method url_path data (Some (query_params (int (Suc j)) params))
             (log @ page_requests self method url_path data params j)
           = (Inr (PList []), log @ page_requests self method url_path data params (Suc j))"
    using last request_json_page [OF m, of session "log @ page_requests self method url_path data params j"
        self url_path data params "Suc j" "PList []"]
    by (simp add: e page_requests_Suc)
  show ?case
    apply (subst request_paged_json_loop.simps)
    apply (simp only: r)
    apply (simp add: loop_stop e)
    done
next
  case (Suc d)
  then have lt: "j < length pages" by simp
  from full lt have p:
    "status_code (session (log @ page_requests self method url_path data params (Suc j))) < 400"
    "resp_json (session (log @ page_requests self method url_path data params (Suc j)))
           = Some (PList (pages ! j))"
    "pages ! j \<noteq> []"
    by blast+
  have r: "request_json session self method url_path data (Some (query_params (int (Suc j)) params))
             (log @ page_requests self method url_path data params j)
           = (Inr (PList (pages ! j)), log @ page_requests self method url_path data params (Suc j))"
    using p request_json_page [OF m, of session "log @ page_requests self method url_path data params j"
        self url_path data params "Suc j" "PList (pages ! j)"]
    by (simp add: page_requests_Suc)
  have ih: "request_paged_json_loop session self method url_path data params (int (Suc (Suc j)))
              (acc @ pages ! j) (log @ page_requests self method url_path data params (Suc j))
            = Some (Inr ((acc @ pages ! j) @ concat (drop (Suc j) pages)),
                 log @ page_requests self method url_path data params (Suc (length pages)))"
    using Suc.hyps(1) [of "Suc j" "acc @ pages ! j"] Suc.hyps(2) lt by simp
  have c: "concat (drop j pages) = pages ! j @ concat (drop (Suc j) pages)"
    using lt by (simp add: Cons_nth_drop_Suc [symmetric])
  have i: "int (Suc j) + 1 = int (Suc (Suc j))" by simp
  show ?case
    apply (subst request_paged_json_loop.simps)
    apply (simp only: r i)
    using p(3) ih c apply simp
    done
qed

lemma map_of_dict_update:
  "map_of (dict_update d other) = map_of d ++ map_of (rev other)"
  unfolding dict_update_def
proof (induction other arbitrary: d)
  case Nil
  show ?case by simp
next
  case (Cons a other)
  obtain k v where a: "a = (k, v)" by (cases a)
  show ?case
    by (simp add: a Cons.IH update_conv' map_add_def fun_eq_iff split: option.split)
qed

text \<open>
  C7, as stated, fails: the caller's \<open>params\<close> are merged over the paging parameters,
  so a caller that passes \<open>per_page\<close> replaces the value 100. Here the one request
  sent carries \<open>per_page = 50\<close>.
\<close>

theorem per_page_override_counterexample:
  "request_paged_json empty_session demo_requester ''GET'' ''/orgs/o/repos'' None
     (Some [(''per_page'', PStr ''50'')]) []
   = Some (Inr [], [prepared_request demo_requester ''GET'' ''/orgs/o/repos'' None
         (Some [(''per_page'', PStr ''50''), (''page'', PInt 1)])])"
  unfolding request_paged_json_def
  apply (subst request_paged_json_loop.simps)
  apply (simp add: request_json_valid Let_def empty_session_def loop_stop query_params_def
      dict_update_def)
  done

text \<open>
  C7, amended. The request for page \<open>k\<close> carries the query parameters
  \<open>per_page = 100\<close> and \<open>page = k\<close> updated with the caller's \<open>params\<close> (a key
  of the caller wins; without \<open>params\<close> they are exactly these two). If the first
  \<open>n\<close> requests, for the pages 1 to \<open>n\<close>, are answered with non-empty JSON lists
  and the request for page \<open>n + 1\<close> with an empty list, then the function returns: its
  result is the concatenation of the \<open>n\<close> lists in order, and it has sent exactly the
  requests for the pages 1 to \<open>n + 1\<close>.
\<close>

theorem request_paged_json_pages:
  assumes m: "method \<in> set [''GET'', ''PATCH'', ''POST'', ''PUT'', ''DELETE'']"
    and full: "\<forall>i < length pages.
         status_code (session (log @ page_requests self method url_path data params (Suc i))) < 400 \<and>
         resp_json (session (log @ page_requests self method url_path data params (Suc i)))
           = Some (PList (pages ! i)) \<and>
         pages ! i \<noteq> []"
    and last: "status_code (session (log @ page_requests self method url_path data params
                   (Suc (length pages)))) < 400 \<and>
         resp_json (session (log @ page_requests self method url_path data params
                   (Suc (length pages)))) = Some (PList [])"
  shows "request_paged_json session self method url_path data params log
           = Some (Inr (concat pages),
                   log @ page_requests self method url_path data params (Suc (length pages))) \<and>
         (\<forall>k. req_params (page_request self method url_path data params k)
                = Some (query_params (int k) params)) \<and>
         (\<forall>k. query_params k None = [(''per_page'', PStr ''100''), (''page'', PInt k)]) \<and>
         (\<forall>k p. map_of (query_params k (Some p))
                = map_of [(''per_page'', PStr ''100''), (''page'', PInt k)] ++ map_of (rev p))"
proof (intro conjI allI)
  show "request_paged_json session self method url_path data params log
           = Some (Inr (concat pages),
                   log @ page_requests self method url_path data params (Suc (length pages)))"
    using loop_pages [OF m full last, of 0 "[]"]
    by (simp add: request_paged_json_def page_requests_def)
  show "req_params (page_request self method url_path data params k)
          = Some (query_params (int k) params)" for k
    by (simp add: page_request_def prepared_request_def)
  show "query_params k None = [(''per_page'', PStr ''100''), (''page'', PInt k)]" for k
    by (simp add: query_params_def)
  show "map_of (query_params k (Some p))
          = map_of [(''per_page'', PStr ''100''), (''page'', PInt k)] ++ map_of (rev p)" for k p
    by (simp only: query_params_def Let_def option.case map_of_dict_update)
qed

theorem request_paged_json_pages_witness:
  "''GET'' \<in> set [''GET'', ''PATCH'', ''POST'', ''PUT'', ''DELETE''] \<and>
   request_paged_json paged_session demo_requester ''GET'' ''/orgs/o/repos'' None None []
     = Some (Inr [PStr ''a'', PStr ''b'', PStr ''c''],
             page_requests demo_requester ''GET'' ''/orgs/o/repos'' None None 3) \<and>
   req_params (page_request demo_requester ''GET'' ''/orgs/o/repos'' None None 2)
     = Some [(''per_page'', PStr ''100''), (''page'', PInt 2)]"
  using request_paged_json_pages [of "''GET''" "[[PStr ''a'', PStr ''b''], [PStr ''c'']]"
      paged_session "[]" demo_requester "''/orgs/o/repos''" None None]
  by (simp add: paged_session_def page_requests_def page_request_def prepared_request_def
      query_params_def less_Suc_eq numeral_2_eq_2 numeral_3_eq_3 Let_def)

section \<open>Updating a file through the contents endpoint\<close>

lemma get_valid: "''GET'' \<in> set [''GET'', ''PATCH'', ''POST'', ''PUT'', ''DELETE'']"
  by simp

lemma put_valid: "''PUT'' \<in> set [''GET'', ''PATCH'', ''POST'', ''PUT'', ''DELETE'']"
  by simp

lemma put_content_log:
  "snd (put_content session derived b64encode self org repo path content message old_sha log)
     = log @ [put_request b64encode self org repo path content message old_sha]"
  by (simp add: put_content_def request_json_valid [OF put_valid] Let_def put_request_def
      split: sum.split option.split)

lemma old_content_of_Inr:
  "old_content_of b64decode j = Inr (sha, old) \<longleftrightarrow>
     (\<exists>d c. j = PDict d \<and> map_of d ''sha'' = Some sha \<and> map_of d ''content'' = Some (PStr c) \<and>
            b64decode c = Some old)"
  apply (cases j)
  apply (auto simp: old_content_of_def split: option.splits sum.splits pyval.splits)
  done

lemma old_content_of_not_runtime:
  "old_content_of b64decode j = Inl e \<Longrightarrow> \<not> isinstance_RuntimeError e"
  apply (cases j)
  apply (auto simp: old_content_of_def split: option.splits sum.splits pyval.splits)
  done


lemma update_content_cases:
  "update_content session derived b64decode b64encode self org repo path content message log =
     (let log' = log @ [get_request self org repo path]; r = session log' in
      if status_code r \<ge> 400 then
        (if isinstance_GitHubException derived (create_exception r)
         then put_content session derived b64encode self org repo path content message PNone log'
         else (Inl (create_exception r), log'))
      else
        (case resp_json r of
           None \<Rightarrow> (Inl JSONDecodeError, log')
         | Some j \<Rightarrow>
             (case old_content_of b64decode j of
                Inl e \<Rightarrow> (Inl e, log')
              | Inr (old_sha, old_content) \<Rightarrow>
                  if content = old_content then (Inr (), log')
                  else put_content session derived b64encode self org repo path content
                         message old_sha log')))"
proof -
  have c: "\<not> isinstance_RuntimeError (create_exception r)" for r
    by (simp add: create_exception_def Let_def)
  show ?thesis
    by (simp add: update_content_def get_content_object_def request_json_valid [OF get_valid]
        Let_def get_request_def [symmetric] c old_content_of_not_runtime
        split: option.split sum.split)
qed

text \<open>
  C10, as stated, fails: every failed read is taken as a missing file. Against a forge
  that stores \<open>hello\<close> but answers 503 to the first request, writing \<open>hello\<close>
  sends a PUT (without \<open>sha\<close>), although the stored content, as a second read would
  have shown, equals the new content.
\<close>

theorem failed_read_put_counterexample:
  "snd (update_content flaky_file_session True demo_b64decode demo_b64encode demo_client
       ''o'' ''r'' ''f.txt'' ''hello'' None [])
     = [get_request demo_client ''o'' ''r'' ''f.txt'',
        put_request demo_b64encode demo_client ''o'' ''r'' ''f.txt'' ''hello'' None PNone] \<and>
   resp_json (flaky_file_session [get_request demo_client ''o'' ''r'' ''f.txt'',
                                  get_request demo_client ''o'' ''r'' ''f.txt''])
     = Some (PDict [(''sha'', PStr ''3b18e5''), (''content'', PStr ''aGVsbG8='')]) \<and>
   demo_b64decode ''aGVsbG8='' = Some ''hello''"
  by (simp add: update_content_cases Let_def put_content_log flaky_file_session_def
      file_session_def demo_b64decode_def create_exception_def)

text \<open>
  C10, amended. \<open>update_content\<close> first reads the stored file with one GET. When that
  read succeeds and the decoded stored content equals the new content, the function
  returns after the GET: no PUT is sent. When the read succeeds and the content differs,
  one PUT follows whose data holds the stored \<open>sha\<close>; when the read fails with a forge
  error, whatever its status, the file is taken not to exist and one PUT without
  \<open>sha\<close> follows. In every case the requests sent are the GET alone or the GET and one
  PUT, and a PUT is sent only after a failed read or a read whose content differs.
\<close>

theorem update_content_writes_only_on_change:
  "(status_code (session (log @ [get_request self org repo path])) < 400 \<and>
    resp_json (session (log @ [get_request self org repo path])) = Some (PDict d) \<and>
    map_of d ''sha'' = Some sha \<and> map_of d ''content'' = Some (PStr c) \<and>
    b64decode c = Some content \<longrightarrow>
      update_content session derived b64decode b64encode self org repo path content
          message log
        = (Inr (), log @ [get_request self org repo path])) \<and>
   (status_code (session (log @ [get_request self org repo path])) < 400 \<and>
    resp_json (session (log @ [get_request self org repo path])) = Some (PDict d) \<and>
    map_of d ''sha'' = Some sha \<and> map_of d ''content'' = Some (PStr c) \<and>
    b64decode c = Some old \<and> old \<noteq> content \<longrightarrow>
      snd (update_content session derived b64decode b64encode self org repo path content
          message log)
        = log @ [get_request self org repo path,
                 put_request b64encode self org repo path content message sha]) \<and>
   (status_code (session (log @ [get_request self org repo path])) \<ge> 400 \<and>
    isinstance_GitHubException derived
      (create_exception (session (log @ [get_request self org repo path]))) \<longrightarrow>
      snd (update_content session derived b64decode b64encode self org repo path content
          message log)
        = log @ [get_request self org repo path,
                 put_request b64encode self org repo path content message PNone]) \<and>
   (snd (update_content session derived b64decode b64encode self org repo path content
          message log) = log @ [get_request self org repo path] \<or>
    (\<exists>s. snd (update_content session derived b64decode b64encode self org repo path
              content message log)
            = log @ [get_request self org repo path,
                     put_request b64encode self org repo path content message s] \<and>
         (status_code (session (log @ [get_request self org repo path])) \<ge> 400 \<and> s = PNone \<or>
          (\<exists>d' c' old'. resp_json (session (log @ [get_request self org repo path]))
                           = Some (PDict d') \<and>
                         map_of d' ''sha'' = Some s \<and> map_of d' ''content'' = Some (PStr c') \<and>
                         b64decode c' = Some old' \<and> old' \<noteq> content)))) \<and>
   (req_method (get_request self org repo path) = ''GET'' \<and>
    (\<forall>s. req_method (put_request b64encode self org repo path content message s)
           = ''PUT'' \<and>
         req_data (put_request b64encode self org repo path content message s)
           = Some (JsonDumps (PDict
               ([(''message'', PStr (case message of
                     None \<Rightarrow> ''Updating file '' @ [sq] @ path @ [sq] @ '' with otterdog.''
                   | Some m \<Rightarrow> m)),
                 (''content'', PStr (b64encode content))]
                @ (if s \<noteq> PNone then [(''sha'', s)] else []))))))"
  (is "?A \<and> ?B \<and> ?C \<and> ?D \<and> ?E")
proof (intro conjI)
  show "req_method (get_request self org repo path) = ''GET''"
    by (simp add: get_request_def prepared_request_def)
  show "\<forall>s. req_method (put_request b64encode self org repo path content message s)
           = ''PUT'' \<and>
         req_data (put_request b64encode self org repo path content message s)
           = Some (JsonDumps (PDict
               ([(''message'', PStr (case message of
                     None \<Rightarrow> ''Updating file '' @ [sq] @ path @ [sq] @ '' with otterdog.''
                   | Some m \<Rightarrow> m)),
                 (''content'', PStr (b64encode content))]
                @ (if s \<noteq> PNone then [(''sha'', s)] else []))))"
    by (simp add: put_request_def prepared_request_def put_data_def Let_def)
  have o: "map_of d ''sha'' = Some sha \<Longrightarrow> map_of d ''content'' = Some (PStr c) \<Longrightarrow>
           b64decode c = Some x \<Longrightarrow> old_content_of b64decode (PDict d) = Inr (sha, x)" for x
    by (simp add: old_content_of_Inr)
  show ?A
    by (simp add: update_content_cases Let_def o)
  show ?B
    by (auto simp add: update_content_cases Let_def o put_content_log)
  show ?C
    by (simp add: update_content_cases Let_def put_content_log)
  show ?D
  proof (cases "status_code (session (log @ [get_request self org repo path])) \<ge> 400")
    case True
    show ?thesis
    proof (cases "isinstance_GitHubException derived
        (create_exception (session (log @ [get_request self org repo path])))")
      case g: True
      have "snd (update_content session derived b64decode b64encode self org repo path
              content message log)
            = log @ [get_request self org repo path,
                     put_request b64encode self org repo path content message PNone]"
        using True g by (simp add: update_content_cases Let_def put_content_log)
      with True show ?thesis by blast
    next
      case g: False
      with True show ?thesis by (simp add: update_content_cases Let_def)
    qed
  next
    case False
    show ?thesis
    proof (cases "resp_json (session (log @ [get_request self org repo path]))")
      case None
      with False show ?thesis by (simp add: update_content_cases Let_def)
    next
      case (Some j)
      show ?thesis
      proof (cases "old_content_of b64decode j")
        case (Inl e)
        with False Some show ?thesis by (simp add: update_content_cases Let_def)
      next
        case (Inr p)
        obtain s old' where p: "p = (s, old')" by (cases p)
        from Inr p obtain d' c' where j: "j = PDict d'" "map_of d' ''sha'' = Some s"
            "map_of d' ''content'' = Some (PStr c')" "b64decode c' = Some old'"
          by (auto simp: old_content_of_Inr)
        show ?thesis
        proof (cases "content = old'")
          case True
          with False Some Inr p show ?thesis by (simp add: update_content_cases Let_def)
        next
          case ne: False
          have "snd (update_content session derived b64decode b64encode self org repo path
              content message log)
            = log @ [get_request self org repo path,
                     put_request b64encode self org repo path content message s]"
            using False Some Inr p ne by (simp add: update_content_cases Let_def put_content_log)
          moreover have "\<exists>d' c' old'. resp_json (session (log @ [get_request self org repo path]))
                           = Some (PDict d') \<and>
                         map_of d' ''sha'' = Some s \<and> map_of d' ''content'' = Some (PStr c') \<and>
                         b64decode c' = Some old' \<and> old' \<noteq> content"
            using Some j ne by auto
          ultimately show ?thesis by blast
        qed
      qed
    qed
  qed
qed
theorem update_content_writes_only_on_change_witness:
  "update_content file_session True demo_b64decode demo_b64encode demo_client
       ''o'' ''r'' ''f.txt'' ''hello'' None []
     = (Inr (), [get_request demo_client ''o'' ''r'' ''f.txt'']) \<and>
   snd (update_content file_session True demo_b64decode demo_b64encode demo_client
       ''o'' ''r'' ''f.txt'' ''world'' None [])
     = [get_request demo_client ''o'' ''r'' ''f.txt'',
        put_request demo_b64encode demo_client ''o'' ''r'' ''f.txt'' ''world'' None
          (PStr ''3b18e5'')] \<and>
   snd (update_content missing_session True demo_b64decode demo_b64encode demo_client
       ''o'' ''r'' ''f.txt'' ''hello'' None [])
     = [get_request demo_client ''o'' ''r'' ''f.txt'',
        put_request demo_b64encode demo_client ''o'' ''r'' ''f.txt'' ''hello'' None PNone]"
proof -
  let ?g = "get_request demo_client ''o'' ''r'' ''f.txt''"
  let ?d = "[(''sha'', PStr ''3b18e5''), (''content'', PStr ''aGVsbG8='')]"
  have f: "status_code (file_session ([] @ [?g])) < 400 \<and>
           resp_json (file_session ([] @ [?g])) = Some (PDict ?d) \<and>
           map_of ?d ''sha'' = Some (PStr ''3b18e5'') \<and>
           map_of ?d ''content'' = Some (PStr ''aGVsbG8='') \<and>
           demo_b64decode ''aGVsbG8='' = Some ''hello''"
    by (simp add: file_session_def demo_b64decode_def)
  have n: "''hello'' \<noteq> ''world''"
    by simp
  have m: "status_code (missing_session ([] @ [?g])) \<ge> 400 \<and>
           isinstance_GitHubException True (create_exception (missing_session ([] @ [?g])))"
    by (simp add: missing_session_def get_request_def prepared_request_def
        create_exception_def)
  have 1: "update_content file_session True demo_b64decode demo_b64encode demo_client
       ''o'' ''r'' ''f.txt'' ''hello'' None []
     = (Inr (), [] @ [?g])"
    using update_content_writes_only_on_change [of file_session "[]" demo_client "''o''" "''r''"
        "''f.txt''" ?d "PStr ''3b18e5''" "''aGVsbG8=''" demo_b64decode "''hello''" True
        demo_b64encode None "''hello''"] f
    by blast
  have 2: "snd (update_content file_session True demo_b64decode demo_b64encode demo_client
       ''o'' ''r'' ''f.txt'' ''world'' None [])
     = [] @ [?g, put_request demo_b64encode demo_client ''o'' ''r'' ''f.txt'' ''world'' None
          (PStr ''3b18e5'')]"
    using update_content_writes_only_on_change [of file_session "[]" demo_client "''o''" "''r''"
        "''f.txt''" ?d "PStr ''3b18e5''" "''aGVsbG8=''" demo_b64decode "''world''" True
        demo_b64encode None "''hello''"] f n
    by blast
  have 3: "snd (update_content missing_session True demo_b64decode demo_b64encode demo_client
       ''o'' ''r'' ''f.txt'' ''hello'' None [])
     = [] @ [?g, put_request demo_b64encode demo_client ''o'' ''r'' ''f.txt'' ''hello'' None PNone]"
    using update_content_writes_only_on_change [of missing_session "[]" demo_client "''o''" "''r''"
        "''f.txt''" ?d "PStr ''3b18e5''" "''aGVsbG8=''" demo_b64decode "''hello''" True
        demo_b64encode None "''hello''"] m
    by blast
  show ?thesis
    using 1 2 3 by simp
qed

end
